theory Spec2Isabelle
  imports Complex_Main "HOL-Library.Multiset"
begin

section \<open>KPI main service: scoring, entry lifecycle, batch generation, statistics\<close>

text \<open>
  A shallow embedding of \<^verbatim>\<open>KpiEntryService\<close> (kpi_entry.services.ts) and of
  \<^verbatim>\<open>filterExcludedMembers\<close> (lib/filters). JavaScript numbers are modelled as exact
  reals: the comparisons of the source are order comparisons, which the embedding of the
  finite doubles into the reals preserves; NaN is not modelled. The logger and the audit
  sink only receive data and are left out.
\<close>

subsection \<open>Values, scoring rules, template items\<close>

text \<open>A raw value is \<^verbatim>\<open>number | string | boolean\<close>; strict equality \<^verbatim>\<open>===\<close> is
  equality of this datatype.\<close>

datatype jsval = JNum real | JStr string | JBool bool

datatype KpiType = Quantitative | Percentage | Binary | Qualitative | Score

datatype error =
    APIError (STATUS: nat) (TITLE: string)
  | TypeError
  | MongooseValidationError
  | UnmodelledCoercion

record ScoringRule =
  rule_min :: "real option"
  rule_max :: "real option"
  rule_value :: "jsval option"
  rule_score :: real

record TemplateItem =
  item_name :: string
  maxMarks :: real
  kpiType :: KpiType
  isDynamic :: bool
  scoringRules :: "ScoringRule list"

subsection \<open>calculateScore\<close>

text \<open>The cast \<^verbatim>\<open>rule.value as number\<close>. It is only applied to rules whose value has
  been checked to be a number (see \<open>numericValues\<close>).\<close>

fun asNumber :: "jsval option \<Rightarrow> real" where
  "asNumber (Some (JNum t)) = t"
| "asNumber _ = 0"

fun isNumber :: "jsval option \<Rightarrow> bool" where
  "isNumber (Some (JNum t)) = True"
| "isNumber _ = False"

definition numericValues :: "ScoringRule list \<Rightarrow> bool" where
  "numericValues rules = list_all (\<lambda>r. isNumber (rule_value r)) rules"

text \<open>\<^verbatim>\<open>Array.prototype.sort(compare)\<close> is stable; for a comparator that is a consistent
  ordering, as both comparators of the source are, every stable sort gives the list that
  stable insertion gives.\<close>

fun insertBy :: "('a \<Rightarrow> 'a \<Rightarrow> real) \<Rightarrow> 'a \<Rightarrow> 'a list \<Rightarrow> 'a list" where
  "insertBy cmp x [] = [x]"
| "insertBy cmp x (y # ys) = (if cmp x y \<le> 0 then x # y # ys else y # insertBy cmp x ys)"

definition jsSort :: "('a \<Rightarrow> 'a \<Rightarrow> real) \<Rightarrow> 'a list \<Rightarrow> 'a list" where
  "jsSort cmp xs = foldr (insertBy cmp) xs []"

text \<open>\<^verbatim>\<open>[...scoringRules].filter(rule => rule.value !== undefined)
  .sort((a, b) => b.value - a.value)\<close>.\<close>

definition sortedRules :: "ScoringRule list \<Rightarrow> ScoringRule list" where
  "sortedRules rules =
     jsSort (\<lambda>a b. asNumber (rule_value b) - asNumber (rule_value a))
       (filter (\<lambda>r. rule_value r \<noteq> None) rules)"

text \<open>The loop over the sorted rules: the first rule with \<^verbatim>\<open>value >= rule.value\<close>
  gives the score, and 0 is returned when the loop ends.\<close>

fun percentageLoop :: "real \<Rightarrow> ScoringRule list \<Rightarrow> real" where
  "percentageLoop v [] = 0"
| "percentageLoop v (r # rs) =
     (if v \<ge> asNumber (rule_value r) then rule_score r else percentageLoop v rs)"

text \<open>The loop over the rules in declared order, for the other kinds. A rule with both
  \<^verbatim>\<open>min\<close> and \<^verbatim>\<open>max\<close> is a range rule and is never tried as an exact rule (the
  \<^verbatim>\<open>else if\<close>); any other rule with a \<^verbatim>\<open>value\<close> is an exact rule.\<close>

fun ruleLoop :: "jsval \<Rightarrow> ScoringRule list \<Rightarrow> real" where
  "ruleLoop v [] = 0"
| "ruleLoop v (r # rs) =
     (case (rule_min r, rule_max r) of
        (Some lo, Some hi) \<Rightarrow>
          (case v of
             JNum x \<Rightarrow> if x \<ge> lo \<and> x \<le> hi then rule_score r else ruleLoop v rs
           | _ \<Rightarrow> ruleLoop v rs)
      | _ \<Rightarrow>
          (if rule_value r \<noteq> None \<and> Some v = rule_value r then rule_score r
           else ruleLoop v rs))"

text \<open>A percentage item whose rules carry a string as threshold makes the source compare
  and subtract through JavaScript's implicit string-to-number coercion; that input is
  reported as \<open>UnmodelledCoercion\<close> instead of being given an invented result.\<close>

fun calculateScore :: "jsval \<Rightarrow> ScoringRule list \<Rightarrow> KpiType \<Rightarrow> error + real" where
  "calculateScore (JNum x) rules Score = Inr x"
| "calculateScore (JNum x) rules Percentage =
     (if numericValues (filter (\<lambda>r. rule_value r \<noteq> None) rules)
      then Inr (percentageLoop x (sortedRules rules))
      else Inl UnmodelledCoercion)"
| "calculateScore v rules k = Inr (ruleLoop v rules)"


subsection \<open>validateRequiredValues and validateAndCalculateScores\<close>

text \<open>A submitted value: \<^verbatim>\<open>{name, value, score?, comments?, isByPassed?}\<close>; the validated
  value is the same object with the score filled in.\<close>

record ValueInput =
  v_name :: string
  v_value :: jsval
  v_score :: "real option"
  v_comments :: "string option"
  v_isByPassed :: "bool option"

record ValueEntry =
  ve_name :: string
  ve_value :: jsval
  ve_score :: real
  ve_comments :: "string option"
  ve_isByPassed :: "bool option"

definition missingNonDynamicKpis :: "ValueInput list \<Rightarrow> TemplateItem list \<Rightarrow> string list" where
  "missingNonDynamicKpis vals templateItems =
     map item_name
       (filter (\<lambda>item. \<not> isDynamic item \<and> item_name item \<notin> set (map v_name vals)) templateItems)"

definition validateRequiredValues :: "ValueInput list \<Rightarrow> TemplateItem list \<Rightarrow> error + unit" where
  "validateRequiredValues vals templateItems =
     (if length (missingNonDynamicKpis vals templateItems) > 0
      then Inl (APIError 400 ''Missing required values'')
      else Inr ())"

fun typeofNumber :: "jsval \<Rightarrow> bool" where
  "typeofNumber (JNum x) = True"
| "typeofNumber _ = False"

fun typeofBoolean :: "jsval \<Rightarrow> bool" where
  "typeofBoolean (JBool b) = True"
| "typeofBoolean _ = False"

text \<open>The body of the loop for one submitted value whose template item was found.\<close>

definition scoreValue :: "ValueInput \<Rightarrow> TemplateItem \<Rightarrow> error + real" where
  "scoreValue val templateItem =
     (if v_isByPassed val = Some True then
        (case v_score val of
           None \<Rightarrow> Inl (APIError 400 ''Missing score field'')
         | Some sc \<Rightarrow> Inr sc)
      else if (kpiType templateItem = Quantitative \<or> kpiType templateItem = Percentage
                 \<or> kpiType templateItem = Score) \<and> \<not> typeofNumber (v_value val)
        then Inl (APIError 400 ''Invalid value type'')
      else if kpiType templateItem = Binary \<and> \<not> typeofBoolean (v_value val)
        then Inl (APIError 400 ''Invalid value type'')
      else calculateScore (v_value val) (scoringRules templateItem) (kpiType templateItem))"

fun scoreLoop :: "ValueInput list \<Rightarrow> TemplateItem list \<Rightarrow> error + ValueEntry list" where
  "scoreLoop [] templateItems = Inr []"
| "scoreLoop (val # vals) templateItems =
     (case find (\<lambda>item. item_name item = v_name val) templateItems of
        None \<Rightarrow> scoreLoop vals templateItems
      | Some templateItem \<Rightarrow>
          (case scoreValue val templateItem of
             Inl e \<Rightarrow> Inl e
           | Inr sc \<Rightarrow>
               (case scoreLoop vals templateItems of
                  Inl e \<Rightarrow> Inl e
                | Inr rest \<Rightarrow>
                    Inr (\<lparr>ve_name = v_name val, ve_value = v_value val, ve_score = sc,
                          ve_comments = v_comments val, ve_isByPassed = v_isByPassed val\<rparr> # rest))))"

definition validateAndCalculateScores ::
    "ValueInput list \<Rightarrow> TemplateItem list \<Rightarrow> error + ValueEntry list" where
  "validateAndCalculateScores vals templateItems =
     (case validateRequiredValues vals templateItems of
        Inl e \<Rightarrow> Inl e
      | Inr _ \<Rightarrow> scoreLoop vals templateItems)"

subsection \<open>Dates\<close>

text \<open>An instant, read in the server's time zone: calendar year, month 1..12, day of the
  month, milliseconds since local midnight. Instants compare lexicographically.\<close>

record Date =
  d_year :: int
  d_month :: nat
  d_day :: nat
  d_ms :: nat

definition dateLe :: "Date \<Rightarrow> Date \<Rightarrow> bool" where
  "dateLe a b =
     (d_year a < d_year b \<or> (d_year a = d_year b \<and>
       (d_month a < d_month b \<or> (d_month a = d_month b \<and>
         (d_day a < d_day b \<or> (d_day a = d_day b \<and> d_ms a \<le> d_ms b))))))"

definition isLeapYear :: "int \<Rightarrow> bool" where
  "isLeapYear y = (y mod 4 = 0 \<and> (y mod 100 \<noteq> 0 \<or> y mod 400 = 0))"

definition daysInMonth :: "int \<Rightarrow> nat \<Rightarrow> nat" where
  "daysInMonth y m =
     (if m = 2 then (if isLeapYear y then 29 else 28)
      else if m = 4 \<or> m = 6 \<or> m = 9 \<or> m = 11 then 30 else 31)"

text \<open>The \<^verbatim>\<open>Date\<close> constructor maps the years 0..99 to 1900..1999 and carries a
  month index outside 0..11 into the year.\<close>

definition jsYear :: "int \<Rightarrow> int" where
  "jsYear y = (if 0 \<le> y \<and> y \<le> 99 then 1900 + y else y)"

text \<open>\<^verbatim>\<open>new Date(year, month - 1, 1)\<close>: local midnight of the first day.\<close>

definition startDate :: "int \<Rightarrow> int \<Rightarrow> Date" where
  "startDate y m =
     \<lparr>d_year = jsYear y + (m - 1) div 12, d_month = nat ((m - 1) mod 12) + 1,
      d_day = 1, d_ms = 0\<rparr>"

text \<open>\<^verbatim>\<open>new Date(year, month, 0)\<close>: day 0 of the next month index, that is local
  midnight at the beginning of the last day of the same month.\<close>

definition endDate :: "int \<Rightarrow> int \<Rightarrow> Date" where
  "endDate y m =
     \<lparr>d_year = jsYear y + (m - 1) div 12, d_month = nat ((m - 1) mod 12) + 1,
      d_day = daysInMonth (jsYear y + (m - 1) div 12) (nat ((m - 1) mod 12) + 1),
      d_ms = 0\<rparr>"

subsection \<open>Members, templates, entries, the store\<close>

text \<open>Modelled from the spec: the \<^verbatim>\<open>Member\<close> type (members.model) is not among the
  sources. The spec gives \<^verbatim>\<open>{userId, departmentSlug, role, metadata:{kpirefs[],
  jurisdiction[]}}\<close>; a field is optional here where the source guards its access
  (\<^verbatim>\<open>member.metadata?.kpirefs || []\<close>, \<^verbatim>\<open>member.metadata.jurisdiction || []\<close>).\<close>

record Metadata =
  md_kpirefs :: "string list option"
  md_jurisdiction :: "string list option"

record Member =
  userId :: string
  departmentSlug :: string
  role :: string
  metadata :: "Metadata option"

record KpiTemplate =
  tpl_id :: string
  tpl_departmentSlug :: string
  tpl_role :: string
  tpl_template :: "TemplateItem list"

datatype EntryStatus = Created | Initiated | Generated

text \<open>The object pushed to \<^verbatim>\<open>entriesToCreate\<close>, and the stored document, which
  \<^verbatim>\<open>insertMany\<close> completes with an identifier and the timestamps.\<close>

record EntryDoc =
  doc_kpiTemplateId :: string
  doc_createdFor :: string
  doc_values :: "ValueEntry list"
  doc_totalScore :: real
  doc_status :: EntryStatus
  doc_createdBy :: string
  doc_month :: int
  doc_year :: int
  doc_kpirefs :: "string option"
  doc_jurisdiction :: "string list"

record KpiEntry =
  entry_id :: nat
  kpiTemplateId :: string
  createdFor :: string
  entry_values :: "ValueEntry list"
  totalScore :: real
  status :: EntryStatus
  createdBy :: string
  month :: int
  year :: int
  kpirefs :: "string option"
  jurisdiction :: "string list"
  createdAt :: Date
  updatedAt :: Date

record store =
  templates :: "KpiTemplate list"
  members :: "Member list"
  entries :: "KpiEntry list"
  nextId :: nat

text \<open>Modelled from the spec: the enum \<^verbatim>\<open>HttpErrorStatusCode\<close> (types/errors) is not
  among the sources; Forbidden and NotFound carry their HTTP status numbers.\<close>

definition FORBIDDEN :: nat where "FORBIDDEN = 403"
definition NOT_FOUND :: nat where "NOT_FOUND = 404"

text \<open>The error kinds of the spec, read off the status of an \<open>APIError\<close>.\<close>

fun isConflict :: "error \<Rightarrow> bool" where
  "isConflict (APIError st t) = (st = 409)"
| "isConflict _ = False"

fun isForbidden :: "error \<Rightarrow> bool" where
  "isForbidden (APIError st t) = (st = 403)"
| "isForbidden _ = False"


subsection \<open>Collaborators: template store, member directory, entry collection\<close>

definition truthy :: "string option \<Rightarrow> bool" where
  "truthy x = (case x of None \<Rightarrow> False | Some str \<Rightarrow> str \<noteq> [])"

definition getKpiTemplate :: "store \<Rightarrow> string \<Rightarrow> KpiTemplate option" where
  "getKpiTemplate s tid = find (\<lambda>t. tpl_id t = tid) (templates s)"

text \<open>\<^verbatim>\<open>MemberService.getMembers({department, role, page: 1, limit: 10000})\<close>: a filter
  is applied only for a truthy argument, and at most 10000 documents are returned.\<close>

definition getMembers :: "store \<Rightarrow> string option \<Rightarrow> string option \<Rightarrow> Member list" where
  "getMembers s department r =
     take 10000
       (filter (\<lambda>m. (truthy department \<longrightarrow> Some (departmentSlug m) = department) \<and>
                     (truthy r \<longrightarrow> Some (role m) = r))
          (members s))"

text \<open>\<^verbatim>\<open>MemberService.getMemberByUserId\<close> returns \<^verbatim>\<open>{...member, user}\<close>, an object
  even when no member document exists; its fields are then undefined, which is \<open>None\<close>
  here.\<close>

definition getMemberByUserId :: "store \<Rightarrow> string \<Rightarrow> Member option" where
  "getMemberByUserId s uid = find (\<lambda>m. userId m = uid) (members s)"

definition findById :: "store \<Rightarrow> nat \<Rightarrow> KpiEntry option" where
  "findById s i = find (\<lambda>e. entry_id e = i) (entries s)"

definition startsWith :: "string \<Rightarrow> string \<Rightarrow> bool" where
  "startsWith str p = (take (length p) str = p)"

definition filterExcludedMembers :: "Member list \<Rightarrow> Member list" where
  "filterExcludedMembers ms =
     filter (\<lambda>member. \<not> startsWith (role member) ''nodalOfficer-''
                       \<and> departmentSlug member \<noteq> ''collector-office'') ms"


subsection \<open>generateDefaultKpiEntries\<close>

definition memberKpirefs :: "Member \<Rightarrow> string list" where
  "memberKpirefs member =
     (case metadata member of
        None \<Rightarrow> []
      | Some md \<Rightarrow> (case md_kpirefs md of None \<Rightarrow> [] | Some ks \<Rightarrow> ks))"

definition defaultDoc ::
    "string \<Rightarrow> int \<Rightarrow> int \<Rightarrow> string \<Rightarrow> string \<Rightarrow> string option \<Rightarrow> string list \<Rightarrow> EntryDoc" where
  "defaultDoc templateId mo yr generatedBy uid kpiref jur =
     \<lparr>doc_kpiTemplateId = templateId, doc_createdFor = uid, doc_values = [],
      doc_totalScore = 0, doc_status = Created, doc_createdBy = generatedBy,
      doc_month = mo, doc_year = yr, doc_kpirefs = kpiref, doc_jurisdiction = jur\<rparr>"

text \<open>The body of the loop over the members. Reading \<^verbatim>\<open>member.metadata.jurisdiction\<close>
  of a member without metadata throws a TypeError, which aborts the whole call.\<close>

definition memberDocs ::
    "string \<Rightarrow> int \<Rightarrow> int \<Rightarrow> string \<Rightarrow> Member \<Rightarrow> error + EntryDoc list" where
  "memberDocs templateId mo yr generatedBy member =
     (case metadata member of
        None \<Rightarrow> Inl TypeError
      | Some md \<Rightarrow>
          (let jur = (case md_jurisdiction md of None \<Rightarrow> [] | Some js \<Rightarrow> js) in
           if length (memberKpirefs member) = 0
           then Inr [defaultDoc templateId mo yr generatedBy (userId member) None jur]
           else Inr (map (\<lambda>kpiref. defaultDoc templateId mo yr generatedBy (userId member)
                                      (Some kpiref) jur)
                      (memberKpirefs member))))"

fun entriesToCreate ::
    "string \<Rightarrow> int \<Rightarrow> int \<Rightarrow> string \<Rightarrow> Member list \<Rightarrow> error + EntryDoc list" where
  "entriesToCreate templateId mo yr generatedBy [] = Inr []"
| "entriesToCreate templateId mo yr generatedBy (member # ms) =
     (case memberDocs templateId mo yr generatedBy member of
        Inl e \<Rightarrow> Inl e
      | Inr ds \<Rightarrow>
          (case entriesToCreate templateId mo yr generatedBy ms of
             Inl e \<Rightarrow> Inl e
           | Inr rest \<Rightarrow> Inr (ds @ rest)))"

text \<open>The validation of the entry schema that \<^verbatim>\<open>insertMany\<close> runs on every document
  before it writes any: month 1..12, year from 2020, required strings not empty.\<close>

definition validDoc :: "EntryDoc \<Rightarrow> bool" where
  "validDoc d =
     (1 \<le> doc_month d \<and> doc_month d \<le> 12 \<and> 2020 \<le> doc_year d \<and>
      doc_kpiTemplateId d \<noteq> [] \<and> doc_createdBy d \<noteq> [] \<and> doc_createdFor d \<noteq> [])"

definition storedEntry :: "Date \<Rightarrow> nat \<Rightarrow> EntryDoc \<Rightarrow> KpiEntry" where
  "storedEntry now i d =
     \<lparr>entry_id = i, kpiTemplateId = doc_kpiTemplateId d, createdFor = doc_createdFor d,
      entry_values = doc_values d, totalScore = doc_totalScore d, status = doc_status d,
      createdBy = doc_createdBy d, month = doc_month d, year = doc_year d,
      kpirefs = doc_kpirefs d, jurisdiction = doc_jurisdiction d,
      createdAt = now, updatedAt = now\<rparr>"

definition insertMany :: "store \<Rightarrow> Date \<Rightarrow> EntryDoc list \<Rightarrow> store \<times> (error + KpiEntry list)" where
  "insertMany s now docs =
     (if \<not> list_all validDoc docs then (s, Inl MongooseValidationError)
      else
        (let created = map (\<lambda>(i, d). storedEntry now i d) (zip [nextId s ..< nextId s + length docs] docs)
         in (s\<lparr>entries := entries s @ created, nextId := nextId s + length docs\<rparr>, Inr created)))"

record GenerateResult =
  entriesCount :: nat
  membersCount :: nat
  res_entries :: "KpiEntry list"

text \<open>The duplicate check: the entries of the template, month and year, created for one of
  the eligible members, whose creation instant lies between \<open>startDate\<close> and
  \<open>endDate\<close>.\<close>

definition existingEntries ::
    "store \<Rightarrow> string \<Rightarrow> int \<Rightarrow> int \<Rightarrow> Member list \<Rightarrow> KpiEntry list" where
  "existingEntries s templateId mo yr filteredMembers =
     filter (\<lambda>e. kpiTemplateId e = templateId \<and> month e = mo \<and> year e = yr \<and>
                  createdFor e \<in> set (map userId filteredMembers) \<and>
                  dateLe (startDate yr mo) (createdAt e) \<and> dateLe (createdAt e) (endDate yr mo))
       (entries s)"

definition generateDefaultKpiEntries ::
    "store \<Rightarrow> Date \<Rightarrow> string \<Rightarrow> int \<Rightarrow> int \<Rightarrow> string \<Rightarrow> store \<times> (error + GenerateResult)" where
  "generateDefaultKpiEntries s now templateId mo yr generatedBy =
     (case getKpiTemplate s templateId of
        None \<Rightarrow> (s, Inl (APIError 404 ''KPI Template Not Found''))
      | Some template \<Rightarrow>
          (let allMembers = getMembers s (Some (tpl_departmentSlug template)) (Some (tpl_role template));
               filteredMembers = filterExcludedMembers allMembers
           in if length (existingEntries s templateId mo yr filteredMembers) > 0
              then (s, Inl (APIError 409 ''Entries Already Exist''))
              else
                (case entriesToCreate templateId mo yr generatedBy filteredMembers of
                   Inl e \<Rightarrow> (s, Inl e)
                 | Inr docs \<Rightarrow>
                     (case insertMany s now docs of
                        (s', Inl e) \<Rightarrow> (s', Inl e)
                      | (s', Inr createdEntries) \<Rightarrow>
                          (s', Inr \<lparr>entriesCount = length createdEntries,
                                    membersCount = length filteredMembers,
                                    res_entries = createdEntries\<rparr>)))))"

subsection \<open>updateKpiEntryValues\<close>

text \<open>\<^verbatim>\<open>userRole.replace('nodalOfficer-', '')\<close> runs only after
  \<^verbatim>\<open>userRole.startsWith('nodalOfficer-')\<close>, so the first occurrence it removes is the
  prefix. The entry's member always is an object (see \<open>getMemberByUserId\<close>); without a
  member document its role is undefined and equals no target role.\<close>

definition validateNodalOfficerPermission :: "store \<Rightarrow> string \<Rightarrow> string \<Rightarrow> KpiEntry \<Rightarrow> bool" where
  "validateNodalOfficerPermission s userRole userDepartment entry =
     (if userDepartment = ''collector-office'' then True
      else if \<not> startsWith userRole ''nodalOfficer-'' then False
      else
        (let targetRole = drop (length ''nodalOfficer-'') userRole in
         case getMemberByUserId s (createdFor entry) of
           None \<Rightarrow> False
         | Some member \<Rightarrow> role member = targetRole))"

fun updateFirst :: "nat \<Rightarrow> (KpiEntry \<Rightarrow> KpiEntry) \<Rightarrow> KpiEntry list \<Rightarrow> KpiEntry list" where
  "updateFirst i f [] = []"
| "updateFirst i f (e # es) = (if entry_id e = i then f e # es else e # updateFirst i f es)"

text \<open>\<^verbatim>\<open>findByIdAndUpdate(entryId, {values, totalScore, status}, {new: true})\<close>: the one
  write of the operation; the schema's timestamps option refreshes \<^verbatim>\<open>updatedAt\<close>.\<close>

definition findByIdAndUpdate ::
    "store \<Rightarrow> Date \<Rightarrow> nat \<Rightarrow> ValueEntry list \<Rightarrow> real \<Rightarrow> EntryStatus \<Rightarrow> store \<times> KpiEntry option" where
  "findByIdAndUpdate s now i vs newTotal st =
     (let s' = s\<lparr>entries := updateFirst i
                  (\<lambda>e. e\<lparr>entry_values := vs, totalScore := newTotal, status := st, updatedAt := now\<rparr>)
                  (entries s)\<rparr>
      in (s', findById s' i))"

text \<open>The permission step: it is entered only when the actor's member record yields a
  truthy role and a truthy department.\<close>

definition permissionDenied :: "store \<Rightarrow> string \<Rightarrow> KpiEntry \<Rightarrow> bool" where
  "permissionDenied s updatedBy entry =
     (let existingNodalOfficer = getMemberByUserId s updatedBy;
          userRole = map_option role existingNodalOfficer;
          userDepartment = map_option departmentSlug existingNodalOfficer
      in case (userRole, userDepartment) of
           (Some r, Some d) \<Rightarrow>
             r \<noteq> [] \<and> d \<noteq> [] \<and> \<not> validateNodalOfficerPermission s r d entry
         | _ \<Rightarrow> False)"

definition updateKpiEntryValues ::
    "store \<Rightarrow> Date \<Rightarrow> nat \<Rightarrow> ValueInput list \<Rightarrow> string \<Rightarrow> store \<times> (error + KpiEntry option)" where
  "updateKpiEntryValues s now entryId vals updatedBy =
     (case findById s entryId of
        None \<Rightarrow> (s, Inl (APIError 404 ''KPI Entry Not Found''))
      | Some entry \<Rightarrow>
          if status entry = Generated
            then (s, Inl (APIError 400 ''Entry Already Generated''))
          else if int (d_month now) \<noteq> month entry \<or> d_year now \<noteq> year entry
            then (s, Inl (APIError 400 ''Update Period Expired''))
          else if permissionDenied s updatedBy entry
            then (s, Inl (APIError FORBIDDEN ''Permission Denied''))
          else
            (case getKpiTemplate s (kpiTemplateId entry) of
               None \<Rightarrow> (s, Inl (APIError 404 ''KPI Template Not Found''))
             | Some template \<Rightarrow>
                 (case validateAndCalculateScores vals (tpl_template template) of
                    Inl e \<Rightarrow> (s, Inl e)
                  | Inr validatedValues \<Rightarrow>
                      (let newTotal = foldl (\<lambda>acc v. acc + ve_score v) 0 validatedValues;
                           (s', updatedEntry) =
                             findByIdAndUpdate s now entryId validatedValues newTotal Initiated
                       in (s', Inr updatedEntry)))))"


subsection \<open>Statistics: period, rows, ranking, summary\<close>

text \<open>The query parameters \<^verbatim>\<open>month\<close> and \<^verbatim>\<open>year\<close> are strings; \<open>None\<close> is an absent
  (falsy) parameter and \<open>Some n\<close> a numeral that \<^verbatim>\<open>Number\<close> reads as the integer \<open>n\<close>.
  JavaScript's \<^verbatim>\<open>%\<close> takes the sign of the dividend.\<close>

definition jsRem :: "int \<Rightarrow> int \<Rightarrow> int" where
  "jsRem a b = sgn a * (\<bar>a\<bar> mod \<bar>b\<bar>)"

definition resolvePeriod :: "Date \<Rightarrow> int option \<Rightarrow> int option \<Rightarrow> int \<times> int" where
  "resolvePeriod now monthP yearP =
     (let currentMonth = int (d_month now);
          currentYear = d_year now;
          (monthNum, yearNum0) =
            (case monthP of
               Some monthValue \<Rightarrow>
                 if monthValue < 0 then
                   (let monthsToSubtract = \<bar>monthValue\<bar>;
                        totalMonths = currentMonth - monthsToSubtract
                    in if totalMonths \<le> 0 then
                         (let yearsToSubtract = \<lceil>real_of_int \<bar>totalMonths\<bar> / 12\<rceil>;
                              m = 12 + jsRem totalMonths 12
                          in (if m = 0 then 12 else m, currentYear - yearsToSubtract))
                       else (totalMonths, currentYear))
                 else (monthValue, case yearP of Some y \<Rightarrow> y | None \<Rightarrow> currentYear)
             | None \<Rightarrow> (currentMonth, case yearP of Some y \<Rightarrow> y | None \<Rightarrow> currentYear));
          yearNum =
            (case yearP of
               Some yearValue \<Rightarrow> if yearValue < 0 then currentYear + yearValue else yearValue
             | None \<Rightarrow> yearNum0)
      in (monthNum, yearNum))"

record Row =
  memberId :: string
  memberDepartment :: string
  memberRole :: string
  ranking :: nat
  row_totalScore :: real
  hasEntry :: bool
  entryId :: "nat option"
  row_status :: "EntryStatus option"
  kpiref :: string
  row_jurisdiction :: "string list"

text \<open>One ranking row; the status \<^verbatim>\<open>'no-entry'\<close> is \<open>None\<close>. The name and the e-mail
  address, copied from the user record, are left out.\<close>

definition makeRow :: "Member \<Rightarrow> KpiEntry option \<Rightarrow> string \<Rightarrow> Row" where
  "makeRow member entry kref =
     \<lparr>memberId = userId member, memberDepartment = departmentSlug member,
      memberRole = role member, ranking = 0,
      row_totalScore =
        (case entry of
           None \<Rightarrow> 0
         | Some e \<Rightarrow> if status e = Initiated \<or> status e = Generated then totalScore e else 0),
      hasEntry =
        (case entry of
           None \<Rightarrow> False
         | Some e \<Rightarrow> status e = Initiated \<or> status e = Generated),
      entryId = map_option entry_id entry,
      row_status = map_option status entry,
      kpiref = kref,
      row_jurisdiction = (case entry of None \<Rightarrow> [] | Some e \<Rightarrow> jurisdiction e)\<rparr>"

text \<open>\<^verbatim>\<open>entriesMap.get(member.userId).get(kpiref)\<close>: the map is filled in the order of
  the entries, so the last entry of the member with that reference is the one kept.\<close>

definition entriesMapGet :: "KpiEntry list \<Rightarrow> string \<Rightarrow> string \<Rightarrow> KpiEntry option" where
  "entriesMapGet kpiEntries uid kref =
     find (\<lambda>e. createdFor e = uid \<and> kpirefs e = Some kref) (rev kpiEntries)"

definition memberRows :: "KpiEntry list \<Rightarrow> Member \<Rightarrow> Row list" where
  "memberRows kpiEntries member =
     (if length (memberKpirefs member) = 0
      then [makeRow member (find (\<lambda>e. createdFor e = userId member) kpiEntries) ''no-kpiref'']
      else map (\<lambda>kref. makeRow member (entriesMapGet kpiEntries (userId member) kref) kref)
             (memberKpirefs member))"

definition buildRankings :: "KpiEntry list \<Rightarrow> Member list \<Rightarrow> Row list" where
  "buildRankings kpiEntries ms = concat (map (memberRows kpiEntries) ms)"

fun statusPriority :: "EntryStatus option \<Rightarrow> real" where
  "statusPriority (Some Generated) = 4"
| "statusPriority (Some Initiated) = 3"
| "statusPriority (Some Created) = 2"
| "statusPriority None = 1"

definition compareRows :: "Row \<Rightarrow> Row \<Rightarrow> real" where
  "compareRows a b =
     (let aPriority = statusPriority (row_status a); bPriority = statusPriority (row_status b)
      in if aPriority \<noteq> bPriority then bPriority - aPriority
         else row_totalScore b - row_totalScore a)"

text \<open>Current month: the counter runs over the sorted rows and is handed only to the
  generated ones.\<close>

fun assignRanks :: "nat \<Rightarrow> Row list \<Rightarrow> Row list" where
  "assignRanks rankingCounter [] = []"
| "assignRanks rankingCounter (r # rs) =
     (if row_status r = Some Generated
      then r\<lparr>ranking := rankingCounter\<rparr> # assignRanks (rankingCounter + 1) rs
      else r\<lparr>ranking := 0\<rparr> # assignRanks rankingCounter rs)"

definition rankCurrent :: "Row list \<Rightarrow> Row list" where
  "rankCurrent rankings = assignRanks 1 (jsSort compareRows rankings)"

text \<open>Other months: \<^verbatim>\<open>generatedRankings\<close> is a filtered copy of the array that shares the
  row objects with \<^verbatim>\<open>rankings\<close>. A row object is addressed by its index in
  \<^verbatim>\<open>rankings\<close>: the copy is the list of the indices of the generated rows, sorting it
  leaves \<^verbatim>\<open>rankings\<close> in its order, and writing a rank through the copy updates the row at
  that index.\<close>

fun writeRanks :: "nat \<Rightarrow> nat list \<Rightarrow> Row list \<Rightarrow> Row list" where
  "writeRanks pos [] rows = rows"
| "writeRanks pos (i # is) rows =
     writeRanks (pos + 1) is (rows[i := (rows ! i)\<lparr>ranking := pos + 1\<rparr>])"

definition rankPast :: "Row list \<Rightarrow> Row list" where
  "rankPast rankings =
     (let generatedRankings =
            filter (\<lambda>i. row_status (rankings ! i) = Some Generated) [0 ..< length rankings];
          sortedGenerated =
            jsSort (\<lambda>a b. row_totalScore (rankings ! b) - row_totalScore (rankings ! a))
              generatedRankings;
          ranked = writeRanks 0 sortedGenerated rankings
      in map (\<lambda>r. if row_status r \<noteq> Some Generated then r\<lparr>ranking := 0\<rparr> else r) ranked)"

text \<open>\<^verbatim>\<open>Math.round\<close> rounds half up.\<close>

definition jsRound :: "real \<Rightarrow> int" where
  "jsRound x = \<lfloor>x + 1 / 2\<rfloor>"

record Statistics =
  totalRankings :: nat
  rankingsWithEntries :: nat
  rankingsWithoutEntries :: nat
  averageScore :: real
  highestScore :: real
  lowestScore :: real
  completionRate :: "int option"

text \<open>The mean before it is rounded to two decimals for the output.\<close>

definition meanScore :: "Row list \<Rightarrow> real" where
  "meanScore rankings =
     (if length (filter hasEntry rankings) > 0
      then foldl (\<lambda>acc r. acc + row_totalScore r) 0 (filter hasEntry rankings)
             / real (length (filter hasEntry rankings))
      else 0)"

text \<open>The completion rate divides by the number of rows; for no rows the source computes
  \<^verbatim>\<open>Math.round(0 / 0 * 100)\<close>, which is NaN and \<open>None\<close> here.\<close>

definition computeStatistics :: "Row list \<Rightarrow> Statistics" where
  "computeStatistics rankings =
     \<lparr>totalRankings = length rankings,
      rankingsWithEntries = length (filter hasEntry rankings),
      rankingsWithoutEntries = length rankings - length (filter hasEntry rankings),
      averageScore = real_of_int (jsRound (meanScore rankings * 100)) / 100,
      highestScore = (case rankings of [] \<Rightarrow> 0 | r # _ \<Rightarrow> row_totalScore r),
      lowestScore =
        (if length (filter hasEntry rankings) > 0
         then row_totalScore (last (filter hasEntry rankings)) else 0),
      completionRate =
        (if length rankings = 0 then None
         else Some (jsRound (real (length (filter hasEntry rankings)) / real (length rankings) * 100)))\<rparr>"

record StatsResult =
  rankings :: "Row list"
  statistics :: Statistics

text \<open>\<^verbatim>\<open>KpiEntryModel.find(kpiEntriesQuery)\<close>: the entries of the resolved month and year,
  of one template when a template is asked for.\<close>

definition periodEntries :: "store \<Rightarrow> string option \<Rightarrow> int \<Rightarrow> int \<Rightarrow> KpiEntry list" where
  "periodEntries s templateId monthNum yearNum =
     filter (\<lambda>e. month e = monthNum \<and> year e = yearNum \<and>
                  (truthy templateId \<longrightarrow> Some (kpiTemplateId e) = templateId))
       (entries s)"

text \<open>The operation; the labels, the available filters and the pagination block of the
  response are computed from the same data and are left out.\<close>

definition getKpiEntriesStatisticsByDepartmentAndRoleWithMonthAndYear ::
    "store \<Rightarrow> Date \<Rightarrow> string option \<Rightarrow> string option \<Rightarrow> string option \<Rightarrow> int option \<Rightarrow> int option
       \<Rightarrow> error + StatsResult" where
  "getKpiEntriesStatisticsByDepartmentAndRoleWithMonthAndYear s now templateId department r monthP yearP =
     (let currentMonth = int (d_month now);
          currentYear = d_year now;
          (monthNum, yearNum) = resolvePeriod now monthP yearP;
          filteredMembers = filterExcludedMembers (getMembers s department r);
          kpiEntries = periodEntries s templateId monthNum yearNum
      in if length kpiEntries = 0 then Inl (APIError 404 ''No KPI Entries Found'')
         else if (case monthP of Some monthValue \<Rightarrow> monthValue < 0 | None \<Rightarrow> False)
                 \<and> length (filter (\<lambda>entry. status entry = Generated) kpiEntries) = 0
           then Inl (APIError 404 ''No Generated Reports Found'')
         else
           (let rows = buildRankings kpiEntries filteredMembers;
                isCurrentMonth = (monthNum = currentMonth \<and> yearNum = currentYear);
                ranked = (if isCurrentMonth then rankCurrent rows else rankPast rows)
            in Inr \<lparr>rankings = ranked, statistics = computeStatistics ranked\<rparr>))"


subsection \<open>The scoring contract in the words of the spec\<close>

text \<open>What the spec says of the range and exact rules: the range rules are tried first,
  the first one in declared order that holds the value wins; only then the exact rules.\<close>

definition rangeMatches :: "jsval \<Rightarrow> ScoringRule \<Rightarrow> bool" where
  "rangeMatches v r =
     (case (rule_min r, rule_max r, v) of
        (Some lo, Some hi, JNum x) \<Rightarrow> lo \<le> x \<and> x \<le> hi
      | _ \<Rightarrow> False)"

definition exactMatches :: "jsval \<Rightarrow> ScoringRule \<Rightarrow> bool" where
  "exactMatches v r = (rule_value r = Some v)"

definition specRangeThenExact :: "jsval \<Rightarrow> ScoringRule list \<Rightarrow> real" where
  "specRangeThenExact v rules =
     (case find (rangeMatches v) rules of
        Some r \<Rightarrow> rule_score r
      | None \<Rightarrow> (case find (exactMatches v) rules of Some r \<Rightarrow> rule_score r | None \<Rightarrow> 0))"

text \<open>What the source tests on one rule: a rule with both bounds is a range rule, whatever
  else it carries; any other rule is tried as an exact rule.\<close>

definition isRangeRule :: "ScoringRule \<Rightarrow> bool" where
  "isRangeRule r = (rule_min r \<noteq> None \<and> rule_max r \<noteq> None)"

definition ruleMatches :: "jsval \<Rightarrow> ScoringRule \<Rightarrow> bool" where
  "ruleMatches v r = (if isRangeRule r then rangeMatches v r else exactMatches v r)"

subsection \<open>Sample data\<close>

definition exampleRules :: "ScoringRule list" where
  "exampleRules =
     [\<lparr>rule_min = None, rule_max = None, rule_value = Some (JNum 90), rule_score = 10\<rparr>,
      \<lparr>rule_min = None, rule_max = None, rule_value = Some (JNum 75), rule_score = 7\<rparr>,
      \<lparr>rule_min = None, rule_max = None, rule_value = Some (JNum 50), rule_score = 4\<rparr>]"

definition exactThenRange :: "ScoringRule list" where
  "exactThenRange =
     [\<lparr>rule_min = None, rule_max = None, rule_value = Some (JNum 5), rule_score = 1\<rparr>,
      \<lparr>rule_min = Some 0, rule_max = Some 10, rule_value = None, rule_score = 2\<rparr>]"

definition nov2026 :: Date where
  "nov2026 = \<lparr>d_year = 2026, d_month = 11, d_day = 2, d_ms = 36000000\<rparr>"

definition patwariTemplate :: KpiTemplate where
  "patwariTemplate =
     \<lparr>tpl_id = ''t1'', tpl_departmentSlug = ''revenue'', tpl_role = ''patwari'',
      tpl_template = [\<lparr>item_name = ''disposal'', maxMarks = 10, kpiType = Percentage,
                       isDynamic = False, scoringRules = exampleRules\<rparr>]\<rparr>"

definition subjectMember :: Member where
  "subjectMember =
     \<lparr>userId = ''u1'', departmentSlug = ''revenue'', role = ''patwari'',
      metadata = Some \<lparr>md_kpirefs = Some [], md_jurisdiction = Some []\<rparr>\<rparr>"

definition entryOf :: "EntryStatus \<Rightarrow> KpiEntry" where
  "entryOf st =
     \<lparr>entry_id = 1, kpiTemplateId = ''t1'', createdFor = ''u1'', entry_values = [],
      totalScore = 0, status = st, createdBy = ''system'', month = 11, year = 2026,
      kpirefs = None, jurisdiction = [],
      createdAt = \<lparr>d_year = 2026, d_month = 11, d_day = 1, d_ms = 0\<rparr>,
      updatedAt = \<lparr>d_year = 2026, d_month = 11, d_day = 1, d_ms = 0\<rparr>\<rparr>"

definition storeOf :: "EntryStatus \<Rightarrow> store" where
  "storeOf st =
     \<lparr>templates = [patwariTemplate], members = [subjectMember],
      entries = [entryOf st], nextId = 2\<rparr>"

definition disposal80 :: ValueInput where
  "disposal80 =
     \<lparr>v_name = ''disposal'', v_value = JNum 80, v_score = None,
      v_comments = None, v_isByPassed = None\<rparr>"

definition boolValue :: ValueInput where
  "boolValue =
     \<lparr>v_name = ''disposal'', v_value = JBool True, v_score = None,
      v_comments = None, v_isByPassed = None\<rparr>"

definition updatedByStranger :: KpiEntry where
  "updatedByStranger =
     (entryOf Created)\<lparr>entry_values :=
         [\<lparr>ve_name = ''disposal'', ve_value = JNum 80, ve_score = 7,
           ve_comments = None, ve_isByPassed = None\<rparr>],
       totalScore := 7, status := Initiated, updatedAt := nov2026\<rparr>"

subsection \<open>Notions used to state the properties\<close>




text \<open>The fan-out of the spec: one entry without reference for a member without references,
  one entry per reference otherwise; each entry is given as the pair of its member and its
  reference.\<close>

definition fanOut :: "Member \<Rightarrow> (string \<times> string option) list" where
  "fanOut m =
     (if memberKpirefs m = [] then [(userId m, None)]
      else map (\<lambda>k. (userId m, Some k)) (memberKpirefs m))"

subsection \<open>More sample data\<close>

definition memberAB :: Member where
  "memberAB =
     \<lparr>userId = ''u2'', departmentSlug = ''revenue'', role = ''patwari'',
      metadata = Some \<lparr>md_kpirefs = Some [''A'', ''B''],
                       md_jurisdiction = Some [''A'', ''B'']\<rparr>\<rparr>"

definition otherMember :: Member where
  "otherMember =
     \<lparr>userId = ''u3'', departmentSlug = ''revenue'', role = ''patwari'',
      metadata = Some \<lparr>md_kpirefs = Some [], md_jurisdiction = Some []\<rparr>\<rparr>"

definition twoMembers :: store where
  "twoMembers =
     \<lparr>templates = [patwariTemplate], members = [memberAB, subjectMember],
      entries = [], nextId = 1\<rparr>"


definition oneMember :: store where
  "oneMember =
     \<lparr>templates = [patwariTemplate], members = [subjectMember], entries = [], nextId = 1\<rparr>"

definition lastDayMorning :: Date where
  "lastDayMorning = \<lparr>d_year = 2026, d_month = 11, d_day = 30, d_ms = 32400000\<rparr>"


definition sealedEntry :: KpiEntry where
  "sealedEntry = (entryOf Generated)\<lparr>totalScore := 5\<rparr>"

definition openEntry :: KpiEntry where
  "openEntry =
     (entryOf Initiated)\<lparr>entry_id := 2, kpiTemplateId := ''t2'', createdFor := ''u3'',
                          totalScore := 9\<rparr>"

definition rankedStore :: store where
  "rankedStore =
     \<lparr>templates = [patwariTemplate], members = [subjectMember, otherMember],
      entries = [sealedEntry, openEntry], nextId = 3\<rparr>"

definition sealedRow :: Row where
  "sealedRow =
     \<lparr>memberId = ''u1'', memberDepartment = ''revenue'', memberRole = ''patwari'', ranking = 1,
      row_totalScore = 5, hasEntry = True, entryId = Some 1, row_status = Some Generated,
      kpiref = ''no-kpiref'', row_jurisdiction = []\<rparr>"

definition openRow :: Row where
  "openRow =
     \<lparr>memberId = ''u3'', memberDepartment = ''revenue'', memberRole = ''patwari'', ranking = 0,
      row_totalScore = 9, hasEntry = True, entryId = Some 2, row_status = Some Initiated,
      kpiref = ''no-kpiref'', row_jurisdiction = []\<rparr>"

definition currentStats :: StatsResult where
  "currentStats =
     \<lparr>rankings = [sealedRow, openRow],
      statistics = \<lparr>totalRankings = 2, rankingsWithEntries = 2, rankingsWithoutEntries = 0,
                    averageScore = 7, highestScore = 5, lowestScore = 9,
                    completionRate = Some 100\<rparr>\<rparr>"




section \<open>Properties\<close>

subsection \<open>Sorting and searching\<close>

lemma insertBy_insort_key:
  "insertBy (\<lambda>a b. f b - f a) x ys = insort_key (\<lambda>r. - f r) x ys"
  by (induction ys) auto

lemma jsSort_sort_key:
  "jsSort (\<lambda>a b. f b - f a) xs = sort_key (\<lambda>r. - f r) xs"
  by (induction xs) (simp_all add: jsSort_def insertBy_insort_key sort_key_def)

lemma find_None_all: "find P xs = None \<longleftrightarrow> (\<forall>x\<in>set xs. \<not> P x)"
  by (induction xs) auto

lemma find_append_first:
  "\<forall>r\<in>set pre. \<not> P r \<Longrightarrow> P e \<Longrightarrow> find P (pre @ e # post) = Some e"
  by (induction pre) auto

subsection \<open>Percentage rules\<close>

lemma percentageLoop_find:
  "percentageLoop v S =
     (case find (\<lambda>r. asNumber (rule_value r) \<le> v) S of None \<Rightarrow> 0 | Some r \<Rightarrow> rule_score r)"
  by (induction S) auto

lemma find_sorted_greatest:
  assumes "sorted (map (\<lambda>r. - asNumber (rule_value r)) S)"
      and "find (\<lambda>r. asNumber (rule_value r) \<le> v) S = Some r"
  shows "r \<in> set S \<and> asNumber (rule_value r) \<le> v \<and>
         (\<forall>r'\<in>set S. asNumber (rule_value r') \<le> v
            \<longrightarrow> asNumber (rule_value r') \<le> asNumber (rule_value r)) \<and>
         r = hd (filter (\<lambda>x. asNumber (rule_value x) = asNumber (rule_value r)) S)"
  using assms
proof (induction S)
  case Nil
  then show ?case by simp
next
  case (Cons x xs)
  show ?case
  proof (cases "asNumber (rule_value x) \<le> v")
    case True
    with Cons.prems have "r = x" by simp
    with True Cons.prems(1) show ?thesis by auto
  next
    case False
    with Cons.prems have f: "find (\<lambda>r. asNumber (rule_value r) \<le> v) xs = Some r" by simp
    from Cons.prems(1) have "sorted (map (\<lambda>r. - asNumber (rule_value r)) xs)" by simp
    from Cons.IH[OF this f] False show ?thesis by auto
  qed
qed

text \<open>
  C1. For a percentage item, a numeric raw value \<open>v\<close> and rules whose thresholds are
  numbers, \<open>calculateScore\<close> returns the score of a rule whose threshold is the greatest
  threshold that is at most \<open>v\<close> (among rules sharing that threshold, the first in declared
  order), and 0 when \<open>v\<close> is below every threshold.
\<close>

theorem percentage_greatest_threshold:
  assumes num: "\<forall>r\<in>set rules. rule_value r \<noteq> None \<longrightarrow> isNumber (rule_value r)"
  shows "(if \<exists>r\<in>set rules. rule_value r \<noteq> None \<and> asNumber (rule_value r) \<le> v
          then \<exists>r\<in>set rules. rule_value r \<noteq> None \<and> asNumber (rule_value r) \<le> v \<and>
                 (\<forall>r'\<in>set rules. rule_value r' \<noteq> None \<and> asNumber (rule_value r') \<le> v
                     \<longrightarrow> asNumber (rule_value r') \<le> asNumber (rule_value r)) \<and>
                 r = hd (filter (\<lambda>x. rule_value x \<noteq> None \<and>
                                      asNumber (rule_value x) = asNumber (rule_value r)) rules) \<and>
                 calculateScore (JNum v) rules Percentage = Inr (rule_score r)
          else calculateScore (JNum v) rules Percentage = Inr 0)"
proof -
  let ?F = "filter (\<lambda>r. rule_value r \<noteq> None) rules"
  let ?k = "\<lambda>r. - asNumber (rule_value r)"
  let ?S = "sortedRules rules"
  have S: "?S = sort_key ?k ?F"
    unfolding sortedRules_def by (rule jsSort_sort_key)
  have nv: "numericValues ?F"
    using num by (auto simp: numericValues_def list_all_iff)
  have cs: "calculateScore (JNum v) rules Percentage = Inr (percentageLoop v ?S)"
    using nv by simp
  have srt: "sorted (map ?k ?S)" by (simp add: S)
  have st: "set ?S = set ?F" by (simp add: S)
  show ?thesis
  proof (cases "find (\<lambda>r. asNumber (rule_value r) \<le> v) ?S")
    case None
    then have "\<forall>x\<in>set ?F. \<not> asNumber (rule_value x) \<le> v"
      using st by (simp add: find_None_all)
    then have "\<not> (\<exists>r\<in>set rules. rule_value r \<noteq> None \<and> asNumber (rule_value r) \<le> v)"
      by auto
    moreover have "calculateScore (JNum v) rules Percentage = Inr 0"
      using None by (simp del: calculateScore.simps add: cs percentageLoop_find)
    ultimately show ?thesis by (simp only: if_False)
  next
    case (Some r)
    from find_sorted_greatest[OF srt Some]
    have a: "r \<in> set ?S" and b: "asNumber (rule_value r) \<le> v"
      and c: "\<forall>r'\<in>set ?S. asNumber (rule_value r') \<le> v
                \<longrightarrow> asNumber (rule_value r') \<le> asNumber (rule_value r)"
      and d: "r = hd (filter (\<lambda>x. asNumber (rule_value x) = asNumber (rule_value r)) ?S)"
      by blast+
    have "filter (\<lambda>x. ?k x = ?k r) ?S = filter (\<lambda>x. ?k x = ?k r) ?F"
      unfolding S by (rule sort_key_stable)
    then have e: "filter (\<lambda>x. asNumber (rule_value x) = asNumber (rule_value r)) ?S
        = filter (\<lambda>x. rule_value x \<noteq> None \<and>
                       asNumber (rule_value x) = asNumber (rule_value r)) rules"
      by (simp add: conj_commute)
    have "r \<in> set rules" "rule_value r \<noteq> None" using a st by auto
    moreover have "calculateScore (JNum v) rules Percentage = Inr (rule_score r)"
      using Some by (simp del: calculateScore.simps add: cs percentageLoop_find)
    ultimately show ?thesis using b c d e st by (auto simp del: calculateScore.simps)
  qed
qed

text \<open>The example of the spec: thresholds 90, 75, 50 with scores 10, 7, 4; the value 80
  scores 7, 95 scores 10 and 40 scores 0.\<close>

theorem percentage_greatest_threshold_witness:
  "numericValues exampleRules \<and>
   calculateScore (JNum 80) exampleRules Percentage = Inr 7 \<and>
   calculateScore (JNum 95) exampleRules Percentage = Inr 10 \<and>
   calculateScore (JNum 40) exampleRules Percentage = Inr 0"
  using percentage_greatest_threshold [of exampleRules 80]
        percentage_greatest_threshold [of exampleRules 95]
        percentage_greatest_threshold [of exampleRules 40]
  by (simp add: exampleRules_def numericValues_def sortedRules_def jsSort_def)

subsection \<open>Range and exact rules\<close>

lemma ruleLoop_step:
  "ruleLoop v (r # rs) = (if ruleMatches v r then rule_score r else ruleLoop v rs)"
  by (cases "rule_min r"; cases "rule_max r"; cases v)
     (auto simp: ruleMatches_def isRangeRule_def rangeMatches_def exactMatches_def)

lemma ruleLoop_find:
  "ruleLoop v rules = (case find (ruleMatches v) rules of None \<Rightarrow> 0 | Some r \<Rightarrow> rule_score r)"
proof (induction rules)
  case Nil
  show ?case by simp
next
  case (Cons r rs)
  show ?case unfolding ruleLoop_step using Cons.IH by simp
qed

lemma calculateScore_other:
  "k = Quantitative \<or> k = Binary \<or> k = Qualitative
     \<Longrightarrow> calculateScore v rules k = Inr (ruleLoop v rules)"
  by (cases v) auto

text \<open>
  C6, as stated, fails: with the exact rule (value 5, score 1) declared before the range
  rule (0 to 10, score 2), the quantitative value 5 scores 1, where trying the range rules
  first gives 2.
\<close>

theorem range_first_counterexample:
  "calculateScore (JNum 5) exactThenRange Quantitative = Inr 1 \<and>
   specRangeThenExact (JNum 5) exactThenRange = 2 \<and>
   calculateScore (JNum 5) exactThenRange Quantitative
     \<noteq> Inr (specRangeThenExact (JNum 5) exactThenRange)"
  by (simp add: exactThenRange_def specRangeThenExact_def rangeMatches_def exactMatches_def)

text \<open>
  C6, amended. For quantitative, binary and qualitative items the rules are tried once, in
  declared order: a rule with both bounds matches a number between them, any other rule
  matches a value strictly equal to its own; the first rule that matches gives the score,
  and the result is 0 when none matches. So an exact rule that matches, declared before
  every other matching rule, gives the score even when a range rule declared later matches
  too.
\<close>

theorem first_matching_rule_wins:
  assumes k: "k = Quantitative \<or> k = Binary \<or> k = Qualitative"
  shows "calculateScore v rules k =
           Inr (case find (ruleMatches v) rules of None \<Rightarrow> 0 | Some r \<Rightarrow> rule_score r) \<and>
         (\<forall>pre e post. rules = pre @ e # post \<and> (\<forall>r\<in>set pre. \<not> ruleMatches v r) \<and>
              \<not> isRangeRule e \<and> exactMatches v e
            \<longrightarrow> calculateScore v rules k = Inr (rule_score e))"
proof -
  have a: "calculateScore v rules k =
           Inr (case find (ruleMatches v) rules of None \<Rightarrow> 0 | Some r \<Rightarrow> rule_score r)"
    using calculateScore_other[OF k] ruleLoop_find by simp
  have "calculateScore v rules k = Inr (rule_score e)"
    if "rules = pre @ e # post" "\<forall>r\<in>set pre. \<not> ruleMatches v r"
       "\<not> isRangeRule e" "exactMatches v e"
    for pre e post
  proof -
    have "ruleMatches v e" using that(3,4) by (simp add: ruleMatches_def)
    then have "find (ruleMatches v) rules = Some e"
      using that(1,2) find_append_first by metis
    then show ?thesis using a by simp
  qed
  then show ?thesis using a by blast
qed

theorem first_matching_rule_wins_witness:
  "(Quantitative = Quantitative \<or> Quantitative = Binary \<or> Quantitative = Qualitative) \<and>
   exactThenRange = [] @ hd exactThenRange # tl exactThenRange \<and>
   \<not> isRangeRule (hd exactThenRange) \<and> exactMatches (JNum 5) (hd exactThenRange) \<and>
   rangeMatches (JNum 5) (hd (tl exactThenRange)) \<and>
   calculateScore (JNum 5) exactThenRange Quantitative = Inr (rule_score (hd exactThenRange))"
  using first_matching_rule_wins [of Quantitative "JNum 5" exactThenRange]
  by (simp add: exactThenRange_def isRangeRule_def exactMatches_def rangeMatches_def)

subsection \<open>Submitting values\<close>

lemma findById_sample: "findById (storeOf st) 1 = Some (entryOf st)"
  by (simp add: findById_def storeOf_def entryOf_def)

lemma getKpiTemplate_sample:
  "getKpiTemplate (storeOf st) (kpiTemplateId (entryOf st)) = Some patwariTemplate"
  by (simp add: getKpiTemplate_def storeOf_def entryOf_def patwariTemplate_def)

lemma stranger_not_member: "getMemberByUserId (storeOf st) ''u9'' = None"
  by (simp add: getMemberByUserId_def storeOf_def subjectMember_def)

lemma stranger_not_denied: "\<not> permissionDenied (storeOf st) ''u9'' (entryOf st)"
  using stranger_not_member by (simp add: permissionDenied_def)

lemma sample_in_period:
  "int (d_month nov2026) = month (entryOf st)" "d_year nov2026 = year (entryOf st)"
  by (simp_all add: nov2026_def entryOf_def)

text \<open>
  C2, as stated, fails on the kind of the error: a generated entry is rejected with status
  400, the status of the validation errors, and not with 409, the status the service gives
  to a conflict (``Entries Already Exist'').
\<close>

theorem generated_entry_conflict_counterexample:
  "updateKpiEntryValues (storeOf Generated) nov2026 1 [disposal80] ''u9''
     = (storeOf Generated, Inl (APIError 400 ''Entry Already Generated'')) \<and>
   \<not> isConflict (APIError 400 ''Entry Already Generated'')"
  using findById_sample [of Generated]
  by (simp add: updateKpiEntryValues_def entryOf_def)

text \<open>
  C2, amended. For every entry whose status is generated, every actor and every list of
  values, \<open>updateKpiEntryValues\<close> fails with the 400 error ``Entry Already Generated'' and
  leaves the store as it was.
\<close>

theorem generated_entry_rejected:
  assumes "findById s eid = Some entry" and "status entry = Generated"
  shows "updateKpiEntryValues s now eid vals updatedBy
           = (s, Inl (APIError 400 ''Entry Already Generated''))"
  using assms by (simp add: updateKpiEntryValues_def)

theorem generated_entry_rejected_witness:
  "findById (storeOf Generated) 1 = Some (entryOf Generated) \<and>
   status (entryOf Generated) = Generated \<and>
   updateKpiEntryValues (storeOf Generated) nov2026 1 [disposal80] ''u1''
           = (storeOf Generated, Inl (APIError 400 ''Entry Already Generated''))"
proof -
  have a: "findById (storeOf Generated) 1 = Some (entryOf Generated)"
    by (rule findById_sample)
  have b: "status (entryOf Generated) = Generated" by (simp add: entryOf_def)
  show ?thesis using a b generated_entry_rejected [OF a b] by simp
qed

text \<open>
  C3: the code departs from the claim. An actor without a member record has neither role
  nor department, the permission step is skipped, and the values are stored: here the
  actor \<open>u9\<close>, unknown to the directory, updates the entry of the patwari \<open>u1\<close>.
\<close>

theorem actor_without_member_record_updates:
  "getMemberByUserId (storeOf Created) ''u9'' = None \<and>
   updateKpiEntryValues (storeOf Created) nov2026 1 [disposal80] ''u9''
     = ((storeOf Created)\<lparr>entries := [updatedByStranger]\<rparr>, Inr (Some updatedByStranger))"
proof -
  have c: "calculateScore (JNum 80) exampleRules Percentage = Inr 7"
    by (simp add: exampleRules_def numericValues_def sortedRules_def jsSort_def)
  have v: "validateAndCalculateScores [disposal80] (tpl_template patwariTemplate)
              = Inr [\<lparr>ve_name = ''disposal'', ve_value = JNum 80, ve_score = 7,
                       ve_comments = None, ve_isByPassed = None\<rparr>]"
    using c by (simp add: validateAndCalculateScores_def validateRequiredValues_def
          missingNonDynamicKpis_def patwariTemplate_def disposal80_def scoreValue_def)
  have m: "status (entryOf Created) \<noteq> Generated"
    by (simp add: entryOf_def)
  have u: "findByIdAndUpdate (storeOf Created) nov2026 1
             [\<lparr>ve_name = ''disposal'', ve_value = JNum 80, ve_score = 7,
               ve_comments = None, ve_isByPassed = None\<rparr>] 7 Initiated
           = ((storeOf Created)\<lparr>entries := [updatedByStranger]\<rparr>, Some updatedByStranger)"
    by (simp add: findByIdAndUpdate_def findById_def storeOf_def entryOf_def
          updatedByStranger_def)
  show ?thesis
    using stranger_not_member [of Created] findById_sample [of Created]
      getKpiTemplate_sample [of Created] v stranger_not_denied [of Created]
      sample_in_period [of Created] m u
    by (simp add: updateKpiEntryValues_def)
qed

text \<open>The stored entry of \<open>u1\<close> after the call of the unknown actor.\<close>

theorem actor_without_member_record_updates_witness:
  "map status (entries (fst (updateKpiEntryValues (storeOf Created) nov2026 1 [disposal80] ''u9'')))
     = [Initiated] \<and>
   map totalScore (entries (fst (updateKpiEntryValues (storeOf Created) nov2026 1 [disposal80] ''u9'')))
     = [7]"
  using actor_without_member_record_updates
  by (simp add: updatedByStranger_def entryOf_def)

text \<open>An actor whose member record gives a role and a department is checked: outside
  the administrative department, and without a supervising role for the role of the entry's
  member, the call is refused.\<close>

lemma known_actor_denied:
  assumes "findById s eid = Some entry" and "status entry \<noteq> Generated"
    and "int (d_month now) = month entry" and "d_year now = year entry"
    and "getMemberByUserId s updatedBy = Some actor"
    and "role actor \<noteq> []" and "departmentSlug actor \<noteq> []"
    and "departmentSlug actor \<noteq> ''collector-office''"
    and "\<not> (startsWith (role actor) ''nodalOfficer-'' \<and>
            (\<exists>m. getMemberByUserId s (createdFor entry) = Some m \<and>
                 role m = drop (length ''nodalOfficer-'') (role actor)))"
  shows "updateKpiEntryValues s now eid vals updatedBy
           = (s, Inl (APIError 403 ''Permission Denied''))"
proof -
  have "\<not> validateNodalOfficerPermission s (role actor) (departmentSlug actor) entry"
    using assms(8,9)
    by (auto simp: validateNodalOfficerPermission_def Let_def split: option.splits)
  then have "permissionDenied s updatedBy entry"
    using assms(5,6,7) by (simp add: permissionDenied_def)
  then show ?thesis
    using assms(1-4) by (simp add: updateKpiEntryValues_def FORBIDDEN_def)
qed

text \<open>
  C10. Every failing call of \<open>updateKpiEntryValues\<close> leaves the store as it was; and each
  of the failure conditions (entry not found, entry generated, another month or year,
  permission denied, template missing, a validation error of the values: wrong type, missing
  non-dynamic item, bypassed item without score) makes the call fail before anything is
  written.
\<close>

theorem update_failure_no_write:
  "(\<forall>s' e. updateKpiEntryValues s now eid vals updatedBy = (s', Inl e) \<longrightarrow> s' = s) \<and>
   ((findById s eid = None \<or>
     (\<exists>entry. findById s eid = Some entry \<and>
        (status entry = Generated \<or>
         int (d_month now) \<noteq> month entry \<or> d_year now \<noteq> year entry \<or>
         permissionDenied s updatedBy entry \<or>
         getKpiTemplate s (kpiTemplateId entry) = None \<or>
         (\<exists>template e. getKpiTemplate s (kpiTemplateId entry) = Some template \<and>
              validateAndCalculateScores vals (tpl_template template) = Inl e))))
    \<longrightarrow> (\<exists>e. updateKpiEntryValues s now eid vals updatedBy = (s, Inl e)))"
proof (intro conjI allI impI)
  fix s' e
  assume "updateKpiEntryValues s now eid vals updatedBy = (s', Inl e)"
  then show "s' = s"
    by (auto simp: updateKpiEntryValues_def Let_def
             split: option.splits if_splits sum.splits prod.splits)
next
  assume "findById s eid = None \<or>
     (\<exists>entry. findById s eid = Some entry \<and>
        (status entry = Generated \<or>
         int (d_month now) \<noteq> month entry \<or> d_year now \<noteq> year entry \<or>
         permissionDenied s updatedBy entry \<or>
         getKpiTemplate s (kpiTemplateId entry) = None \<or>
         (\<exists>template e. getKpiTemplate s (kpiTemplateId entry) = Some template \<and>
              validateAndCalculateScores vals (tpl_template template) = Inl e)))"
  then show "\<exists>e. updateKpiEntryValues s now eid vals updatedBy = (s, Inl e)"
    by (auto simp: updateKpiEntryValues_def Let_def)
qed

text \<open>A boolean submitted for a percentage item, and an empty submission that misses the
  required item: both calls fail and the store is the one they were given.\<close>

theorem update_failure_no_write_witness:
  "updateKpiEntryValues (storeOf Created) nov2026 1 [boolValue] ''u9''
     = (storeOf Created, Inl (APIError 400 ''Invalid value type'')) \<and>
   updateKpiEntryValues (storeOf Created) nov2026 1 [] ''u9''
     = (storeOf Created, Inl (APIError 400 ''Missing required values''))"
proof -
  have v1: "validateAndCalculateScores [boolValue] (tpl_template patwariTemplate)
              = Inl (APIError 400 ''Invalid value type'')"
    by (simp add: validateAndCalculateScores_def validateRequiredValues_def
          missingNonDynamicKpis_def patwariTemplate_def boolValue_def scoreValue_def)
  have v2: "validateAndCalculateScores [] (tpl_template patwariTemplate)
              = Inl (APIError 400 ''Missing required values'')"
    by (simp add: validateAndCalculateScores_def validateRequiredValues_def
          missingNonDynamicKpis_def patwariTemplate_def)
  have m: "status (entryOf Created) \<noteq> Generated"
    by (simp add: entryOf_def)
  have r1: "updateKpiEntryValues (storeOf Created) nov2026 1 [boolValue] ''u9''
     = (storeOf Created, Inl (APIError 400 ''Invalid value type''))"
    using findById_sample [of Created] getKpiTemplate_sample [of Created] v1
      stranger_not_denied [of Created] sample_in_period [of Created] m
    by (simp add: updateKpiEntryValues_def)
  have r2: "updateKpiEntryValues (storeOf Created) nov2026 1 [] ''u9''
     = (storeOf Created, Inl (APIError 400 ''Missing required values''))"
    using findById_sample [of Created] getKpiTemplate_sample [of Created] v2
      stranger_not_denied [of Created] sample_in_period [of Created] m
    by (simp add: updateKpiEntryValues_def)
  from update_failure_no_write [of "storeOf Created" nov2026 1 "[boolValue]" "''u9''"]
       update_failure_no_write [of "storeOf Created" nov2026 1 "[]" "''u9''"]
  show ?thesis using r1 r2 by simp
qed


subsection \<open>Generating the default entries\<close>

lemma memberDocs_tags:
  "memberDocs tid mo yr gby m = Inr ds \<Longrightarrow>
     map (\<lambda>d. (doc_createdFor d, doc_kpirefs d)) ds = fanOut m"
  by (auto simp: memberDocs_def fanOut_def defaultDoc_def Let_def comp_def
           split: option.splits if_splits)

lemma entriesToCreate_tags:
  "entriesToCreate tid mo yr gby ms = Inr docs \<Longrightarrow>
     map (\<lambda>d. (doc_createdFor d, doc_kpirefs d)) docs = concat (map fanOut ms)"
proof (induction ms arbitrary: docs)
  case Nil
  then show ?case by simp
next
  case (Cons m ms)
  then show ?case
    by (auto split: sum.splits simp: memberDocs_tags)
qed

lemma stored_tags:
  "length js = length docs \<Longrightarrow>
   map (\<lambda>e. (createdFor e, kpirefs e)) (map (\<lambda>(i, d). storedEntry now i d) (zip js docs))
     = map (\<lambda>d. (doc_createdFor d, doc_kpirefs d)) docs"
  by (induction js docs rule: list_induct2) (simp_all add: storedEntry_def)



text \<open>What a successful call has gone through, and the conditions under which a call
  succeeds.\<close>

lemma generate_success:
  assumes "generateDefaultKpiEntries s now tid mo yr gby = (s', Inr res)"
  shows "\<exists>template docs. getKpiTemplate s tid = Some template \<and>
     existingEntries s tid mo yr (filterExcludedMembers
        (getMembers s (Some (tpl_departmentSlug template)) (Some (tpl_role template)))) = [] \<and>
     entriesToCreate tid mo yr gby (filterExcludedMembers
        (getMembers s (Some (tpl_departmentSlug template)) (Some (tpl_role template)))) = Inr docs \<and>
     list_all validDoc docs \<and>
     res_entries res = map (\<lambda>(i, d). storedEntry now i d)
                         (zip [nextId s ..< nextId s + length docs] docs) \<and>
     entriesCount res = length docs \<and>
     membersCount res = length (filterExcludedMembers
        (getMembers s (Some (tpl_departmentSlug template)) (Some (tpl_role template)))) \<and>
     s' = s\<lparr>entries := entries s @ res_entries res, nextId := nextId s + length docs\<rparr>"
  using assms
  by (auto simp: generateDefaultKpiEntries_def insertMany_def Let_def
           split: option.splits if_splits sum.splits prod.splits)

lemma generate_total:
  assumes "getKpiTemplate s tid = Some template"
    and "existingEntries s tid mo yr (filterExcludedMembers
           (getMembers s (Some (tpl_departmentSlug template)) (Some (tpl_role template)))) = []"
    and "entriesToCreate tid mo yr gby (filterExcludedMembers
           (getMembers s (Some (tpl_departmentSlug template)) (Some (tpl_role template)))) = Inr docs"
    and "list_all validDoc docs"
  shows "generateDefaultKpiEntries s now tid mo yr gby =
    (s\<lparr>entries := entries s @ map (\<lambda>(i, d). storedEntry now i d)
                                  (zip [nextId s ..< nextId s + length docs] docs),
       nextId := nextId s + length docs\<rparr>,
     Inr \<lparr>entriesCount = length docs,
          membersCount = length (filterExcludedMembers
             (getMembers s (Some (tpl_departmentSlug template)) (Some (tpl_role template)))),
          res_entries = map (\<lambda>(i, d). storedEntry now i d)
                          (zip [nextId s ..< nextId s + length docs] docs)\<rparr>)"
  using assms by (simp add: generateDefaultKpiEntries_def insertMany_def Let_def)

lemma getters_frame:
  "getKpiTemplate (s\<lparr>entries := es, nextId := n\<rparr>) tid = getKpiTemplate s tid"
  "getMembers (s\<lparr>entries := es, nextId := n\<rparr>) d r = getMembers s d r"
  by (simp_all add: getKpiTemplate_def getMembers_def)

lemma fanOut_length:
  "length (fanOut m) = (if memberKpirefs m = [] then 1 else length (memberKpirefs m))"
  by (simp add: fanOut_def)

lemma fan_out_returned:
  assumes "generateDefaultKpiEntries s now tid mo yr gby = (s', Inr res)"
  shows "\<exists>template. getKpiTemplate s tid = Some template \<and>
     map (\<lambda>e. (createdFor e, kpirefs e)) (res_entries res)
       = concat (map fanOut (filterExcludedMembers
           (getMembers s (Some (tpl_departmentSlug template)) (Some (tpl_role template))))) \<and>
     entriesCount res = length (res_entries res) \<and>
     entriesCount res
       = sum_list (map (\<lambda>m. if memberKpirefs m = [] then 1 else length (memberKpirefs m))
           (filterExcludedMembers
             (getMembers s (Some (tpl_departmentSlug template)) (Some (tpl_role template))))) \<and>
     entries s' = entries s @ res_entries res"
proof -
  from generate_success[OF assms] obtain template docs where
    t: "getKpiTemplate s tid = Some template" and
    d: "entriesToCreate tid mo yr gby (filterExcludedMembers
          (getMembers s (Some (tpl_departmentSlug template)) (Some (tpl_role template))))
        = Inr docs" and
    r: "res_entries res = map (\<lambda>(i, d). storedEntry now i d)
                            (zip [nextId s ..< nextId s + length docs] docs)" and
    c: "entriesCount res = length docs" and
    s': "s' = s\<lparr>entries := entries s @ res_entries res, nextId := nextId s + length docs\<rparr>"
    by blast
  let ?ms = "filterExcludedMembers
          (getMembers s (Some (tpl_departmentSlug template)) (Some (tpl_role template)))"
  have "map (\<lambda>e. (createdFor e, kpirefs e)) (res_entries res)
          = map (\<lambda>d. (doc_createdFor d, doc_kpirefs d)) docs"
    unfolding r by (rule stored_tags) simp
  then have tags: "map (\<lambda>e. (createdFor e, kpirefs e)) (res_entries res) = concat (map fanOut ?ms)"
    using entriesToCreate_tags[OF d] by simp
  have "length docs = length (concat (map fanOut ?ms))"
    using arg_cong[OF entriesToCreate_tags[OF d], of length] by simp
  then have cnt: "entriesCount res
       = sum_list (map (\<lambda>m. if memberKpirefs m = [] then 1 else length (memberKpirefs m)) ?ms)"
    using c by (simp add: length_concat comp_def fanOut_length)
  show ?thesis using t tags c r s' cnt by simp
qed

text \<open>The call returns when the template exists, the duplicate check finds nothing, every
  eligible member has its metadata and the documents pass the schema.\<close>

lemma memberDocs_valid:
  assumes "metadata m \<noteq> None" "userId m \<noteq> []"
      and "1 \<le> mo" "mo \<le> 12" "2020 \<le> yr" "tid \<noteq> []" "gby \<noteq> []"
  shows "\<exists>ds. memberDocs tid mo yr gby m = Inr ds \<and> list_all validDoc ds"
  using assms
  by (auto simp: memberDocs_def Let_def validDoc_def defaultDoc_def list_all_iff)

lemma entriesToCreate_valid:
  assumes "\<forall>m\<in>set ms. metadata m \<noteq> None \<and> userId m \<noteq> []"
      and "1 \<le> mo" "mo \<le> 12" "2020 \<le> yr" "tid \<noteq> []" "gby \<noteq> []"
  shows "\<exists>docs. entriesToCreate tid mo yr gby ms = Inr docs \<and> list_all validDoc docs"
  using assms(1)
proof (induction ms)
  case Nil
  show ?case by simp
next
  case (Cons m ms)
  from Cons.prems have "metadata m \<noteq> None" "userId m \<noteq> []" by simp_all
  from memberDocs_valid[OF this assms(2-6)] obtain ds where
    ds: "memberDocs tid mo yr gby m = Inr ds" "list_all validDoc ds" by blast
  from Cons obtain rest where
    rest: "entriesToCreate tid mo yr gby ms = Inr rest" "list_all validDoc rest" by auto
  show ?case using ds rest by simp
qed

lemma generate_returns:
  assumes t: "getKpiTemplate s tid = Some template"
    and ex: "existingEntries s tid mo yr (filterExcludedMembers
           (getMembers s (Some (tpl_departmentSlug template)) (Some (tpl_role template)))) = []"
    and md: "\<forall>m\<in>set (filterExcludedMembers
           (getMembers s (Some (tpl_departmentSlug template)) (Some (tpl_role template)))).
              metadata m \<noteq> None \<and> userId m \<noteq> []"
    and rg: "1 \<le> mo" "mo \<le> 12" "2020 \<le> yr" "tid \<noteq> []" "gby \<noteq> []"
  shows "\<exists>s' res. generateDefaultKpiEntries s now tid mo yr gby = (s', Inr res)"
proof -
  from entriesToCreate_valid[OF md rg] obtain docs where
    d: "entriesToCreate tid mo yr gby (filterExcludedMembers
           (getMembers s (Some (tpl_departmentSlug template)) (Some (tpl_role template))))
         = Inr docs" and v: "list_all validDoc docs" by blast
  show ?thesis using generate_total[OF t ex d v, of now] by blast
qed

text \<open>
  C5. A call of \<open>generateDefaultKpiEntries\<close> returns when the template exists, the duplicate
  check finds nothing, every eligible member has its metadata and the documents pass the
  schema. In a call that returns, the inserted entries are, member after member of the
  eligible members, the fan-out of the member: one entry without \<open>kpirefs\<close> for a member
  without references, and for a member with N references N entries, the i-th carrying the
  i-th reference. Their number is the sum, over the eligible members, of 1 or N, and they
  are appended to the stored entries.
\<close>

theorem fan_out_per_member:
  "(\<forall>s' res. generateDefaultKpiEntries s now tid mo yr gby = (s', Inr res) \<longrightarrow>
     (\<exists>template. getKpiTemplate s tid = Some template \<and>
        map (\<lambda>e. (createdFor e, kpirefs e)) (res_entries res)
          = concat (map fanOut (filterExcludedMembers
              (getMembers s (Some (tpl_departmentSlug template)) (Some (tpl_role template))))) \<and>
        entriesCount res = length (res_entries res) \<and>
        entriesCount res
          = sum_list (map (\<lambda>m. if memberKpirefs m = [] then 1 else length (memberKpirefs m))
              (filterExcludedMembers
                (getMembers s (Some (tpl_departmentSlug template)) (Some (tpl_role template))))) \<and>
        entries s' = entries s @ res_entries res)) \<and>
   (\<forall>template. getKpiTemplate s tid = Some template \<and>
        existingEntries s tid mo yr (filterExcludedMembers
           (getMembers s (Some (tpl_departmentSlug template)) (Some (tpl_role template)))) = [] \<and>
        (\<forall>m\<in>set (filterExcludedMembers
           (getMembers s (Some (tpl_departmentSlug template)) (Some (tpl_role template)))).
              metadata m \<noteq> None \<and> userId m \<noteq> []) \<and>
        1 \<le> mo \<and> mo \<le> 12 \<and> 2020 \<le> yr \<and> tid \<noteq> [] \<and> gby \<noteq> []
      \<longrightarrow> (\<exists>s' res. generateDefaultKpiEntries s now tid mo yr gby = (s', Inr res))) \<and>
   (\<forall>m. memberKpirefs m \<noteq> [] \<longrightarrow> map snd (fanOut m) = map Some (memberKpirefs m)) \<and>
   (\<forall>m. memberKpirefs m = [] \<longrightarrow> fanOut m = [(userId m, None)])"
proof (intro conjI allI impI)
  fix s' res
  assume "generateDefaultKpiEntries s now tid mo yr gby = (s', Inr res)"
  then show "\<exists>template. getKpiTemplate s tid = Some template \<and>
        map (\<lambda>e. (createdFor e, kpirefs e)) (res_entries res)
          = concat (map fanOut (filterExcludedMembers
              (getMembers s (Some (tpl_departmentSlug template)) (Some (tpl_role template))))) \<and>
        entriesCount res = length (res_entries res) \<and>
        entriesCount res
          = sum_list (map (\<lambda>m. if memberKpirefs m = [] then 1 else length (memberKpirefs m))
              (filterExcludedMembers
                (getMembers s (Some (tpl_departmentSlug template)) (Some (tpl_role template))))) \<and>
        entries s' = entries s @ res_entries res"
    by (rule fan_out_returned)
next
  fix template
  assume "getKpiTemplate s tid = Some template \<and>
        existingEntries s tid mo yr (filterExcludedMembers
           (getMembers s (Some (tpl_departmentSlug template)) (Some (tpl_role template)))) = [] \<and>
        (\<forall>m\<in>set (filterExcludedMembers
           (getMembers s (Some (tpl_departmentSlug template)) (Some (tpl_role template)))).
              metadata m \<noteq> None \<and> userId m \<noteq> []) \<and>
        1 \<le> mo \<and> mo \<le> 12 \<and> 2020 \<le> yr \<and> tid \<noteq> [] \<and> gby \<noteq> []"
  then show "\<exists>s' res. generateDefaultKpiEntries s now tid mo yr gby = (s', Inr res)"
    using generate_returns[of s tid template mo yr gby now] by blast
next
  fix m assume "memberKpirefs m \<noteq> []"
  then show "map snd (fanOut m) = map Some (memberKpirefs m)"
    by (simp add: fanOut_def comp_def)
next
  fix m assume "memberKpirefs m = []"
  then show "fanOut m = [(userId m, None)]" by (simp add: fanOut_def)
qed

lemma patwari_fields:
  "tpl_departmentSlug patwariTemplate = ''revenue''" "tpl_role patwariTemplate = ''patwari''"
  by (simp_all add: patwariTemplate_def)

lemma filtered_two:
  "filterExcludedMembers (getMembers twoMembers (Some ''revenue'') (Some ''patwari''))
     = [memberAB, subjectMember]"
  by (simp add: getMembers_def twoMembers_def truthy_def memberAB_def subjectMember_def
        filterExcludedMembers_def startsWith_def)

text \<open>The example of the spec: two eligible members, one with the references A and B and
  one without references, give exactly three entries.\<close>

theorem fan_out_per_member_witness:
  "\<exists>s' res. generateDefaultKpiEntries twoMembers nov2026 ''t1'' 11 2026 ''system'' = (s', Inr res) \<and>
      memberKpirefs memberAB = [''A'', ''B''] \<and> memberKpirefs subjectMember = [] \<and>
      map (\<lambda>e. (createdFor e, kpirefs e)) (res_entries res)
        = [(''u2'', Some ''A''), (''u2'', Some ''B''), (''u1'', None)] \<and>
      entriesCount res = 3 \<and> length (entries s') = 3"
proof -
  note inst = fan_out_per_member [of twoMembers nov2026 "''t1''" 11 2026 "''system''"]
  have t: "getKpiTemplate twoMembers ''t1'' = Some patwariTemplate"
    by (simp add: getKpiTemplate_def twoMembers_def patwariTemplate_def)
  have ms: "filterExcludedMembers
           (getMembers twoMembers (Some (tpl_departmentSlug patwariTemplate))
              (Some (tpl_role patwariTemplate))) = [memberAB, subjectMember]"
    by (simp only: patwari_fields filtered_two)
  have ex: "existingEntries twoMembers ''t1'' 11 2026 [memberAB, subjectMember] = []"
    by (simp add: existingEntries_def twoMembers_def)
  have md: "\<forall>m\<in>set [memberAB, subjectMember]. metadata m \<noteq> None \<and> userId m \<noteq> []"
    by (simp add: memberAB_def subjectMember_def)
  from inst t ms ex md obtain s' res where
    g: "generateDefaultKpiEntries twoMembers nov2026 ''t1'' 11 2026 ''system'' = (s', Inr res)"
    by auto
  have k: "memberKpirefs memberAB = [''A'', ''B'']" "memberKpirefs subjectMember = []"
    by (simp_all add: memberKpirefs_def memberAB_def subjectMember_def)
  have u: "userId memberAB = ''u2''" "userId subjectMember = ''u1''"
    by (simp_all add: memberAB_def subjectMember_def)
  have e0: "entries twoMembers = []" by (simp add: twoMembers_def)
  from inst g t ms have
    tags: "map (\<lambda>e. (createdFor e, kpirefs e)) (res_entries res)
             = concat (map fanOut [memberAB, subjectMember])" and
    cnt: "entriesCount res = length (res_entries res)" and
    app: "entries s' = entries twoMembers @ res_entries res"
    by auto
  have tags': "map (\<lambda>e. (createdFor e, kpirefs e)) (res_entries res)
        = [(''u2'', Some ''A''), (''u2'', Some ''B''), (''u1'', None)]"
    using tags k u by (simp add: fanOut_def)
  have "length (res_entries res) = 3"
    using arg_cong[OF tags', of length] by simp
  then show ?thesis using g k tags' cnt app e0 by auto
qed

lemma filtered_one:
  "filterExcludedMembers (getMembers oneMember (Some ''revenue'') (Some ''patwari''))
     = [subjectMember]"
  by (simp add: getMembers_def oneMember_def truthy_def subjectMember_def
        filterExcludedMembers_def startsWith_def)

lemma docs_one:
  "entriesToCreate ''t1'' 11 2026 ''system'' [subjectMember]
    = Inr [defaultDoc ''t1'' 11 2026 ''system'' ''u1'' None []]"
  by (simp add: memberDocs_def memberKpirefs_def subjectMember_def Let_def)

lemma valid_one: "list_all validDoc [defaultDoc ''t1'' 11 2026 ''system'' ''u1'' None []]"
  by (simp add: validDoc_def defaultDoc_def)

lemma generate_one:
  "generateDefaultKpiEntries oneMember now ''t1'' 11 2026 ''system'' =
     (oneMember\<lparr>entries :=
           [storedEntry now 1 (defaultDoc ''t1'' 11 2026 ''system'' ''u1'' None [])],
         nextId := 2\<rparr>,
      Inr \<lparr>entriesCount = 1, membersCount = 1,
           res_entries =
             [storedEntry now 1 (defaultDoc ''t1'' 11 2026 ''system'' ''u1'' None [])]\<rparr>)"
proof -
  have t: "getKpiTemplate oneMember ''t1'' = Some patwariTemplate"
    by (simp add: getKpiTemplate_def oneMember_def patwariTemplate_def)
  have ex: "existingEntries oneMember ''t1'' 11 2026 (filterExcludedMembers
           (getMembers oneMember (Some (tpl_departmentSlug patwariTemplate))
              (Some (tpl_role patwariTemplate)))) = []"
    by (simp add: existingEntries_def oneMember_def)
  have ds: "entriesToCreate ''t1'' 11 2026 ''system'' (filterExcludedMembers
           (getMembers oneMember (Some (tpl_departmentSlug patwariTemplate))
              (Some (tpl_role patwariTemplate))))
     = Inr [defaultDoc ''t1'' 11 2026 ''system'' ''u1'' None []]"
    by (simp only: patwari_fields filtered_one docs_one)
  have n: "nextId oneMember = 1" "entries oneMember = []" by (simp_all add: oneMember_def)
  show ?thesis
    using generate_total[OF t ex ds valid_one, of now]
    by (simp add: n patwari_fields filtered_one)
qed





text \<open>Outside that window the duplicate check finds nothing: \<open>endDate\<close> is the midnight
  that begins the last day of the month, so two calls on the morning of 30 November 2026
  both succeed and leave two entries for the same member, template, month and year.\<close>

lemma last_day_generation_repeats:
  "\<exists>s1 r1 s2 r2.
      generateDefaultKpiEntries oneMember lastDayMorning ''t1'' 11 2026 ''system'' = (s1, Inr r1) \<and>
      entriesCount r1 = 1 \<and>
      generateDefaultKpiEntries s1 lastDayMorning ''t1'' 11 2026 ''system'' = (s2, Inr r2) \<and>
      entriesCount r2 = 1 \<and>
      map (\<lambda>e. (kpiTemplateId e, createdFor e, month e, year e, kpirefs e)) (entries s2)
        = [(''t1'', ''u1'', 11, 2026, None), (''t1'', ''u1'', 11, 2026, None)]"
proof -
  let ?d = "defaultDoc ''t1'' 11 2026 ''system'' ''u1'' None []"
  let ?s1 = "oneMember\<lparr>entries := [storedEntry lastDayMorning 1 ?d], nextId := 2\<rparr>"
  have t: "getKpiTemplate ?s1 ''t1'' = Some patwariTemplate"
    by (simp add: getKpiTemplate_def oneMember_def patwariTemplate_def)
  have ms: "filterExcludedMembers
           (getMembers ?s1 (Some (tpl_departmentSlug patwariTemplate))
              (Some (tpl_role patwariTemplate)))
          = [subjectMember]"
    using filtered_one by (simp add: getters_frame patwari_fields)
  have late: "\<not> dateLe lastDayMorning (endDate 2026 11)"
    by (simp add: dateLe_def endDate_def jsYear_def daysInMonth_def lastDayMorning_def)
  have ex: "existingEntries ?s1 ''t1'' 11 2026 (filterExcludedMembers
           (getMembers ?s1 (Some (tpl_departmentSlug patwariTemplate))
              (Some (tpl_role patwariTemplate)))) = []"
    unfolding ms using late by (simp add: existingEntries_def storedEntry_def)
  have ds: "entriesToCreate ''t1'' 11 2026 ''system'' (filterExcludedMembers
           (getMembers ?s1 (Some (tpl_departmentSlug patwariTemplate))
              (Some (tpl_role patwariTemplate))))
     = Inr [?d]"
    unfolding ms by (rule docs_one)
  note g2 = generate_total[OF t ex ds valid_one, of lastDayMorning]
  show ?thesis
    apply (rule exI, rule exI, rule exI, rule exI)
    apply (rule conjI, rule generate_one[of lastDayMorning])
    apply (rule conjI, simp)
    apply (rule conjI, rule g2)
    apply (simp add: storedEntry_def defaultDoc_def)
    done
qed

subsection \<open>Stable sorting by a comparator\<close>

lemma mset_insertBy: "mset (insertBy cmp x ys) = add_mset x (mset ys)"
  by (induction ys) auto

lemma mset_jsSort: "mset (jsSort cmp xs) = mset xs"
  by (induction xs) (simp_all add: jsSort_def mset_insertBy)


lemma length_jsSort: "length (jsSort cmp xs) = length xs"
  by (rule mset_eq_length[OF mset_jsSort])






subsection \<open>Ranking\<close>































subsection \<open>Statistics on sample stores\<close>

lemma resolve_current: "resolvePeriod nov2026 None None = (11, 2026)"
  by (simp add: resolvePeriod_def nov2026_def)



lemma members_ranked:
  "filterExcludedMembers (getMembers rankedStore None None) = [subjectMember, otherMember]"
  by (simp add: getMembers_def rankedStore_def truthy_def filterExcludedMembers_def
        startsWith_def subjectMember_def otherMember_def)


lemma rows_ranked:
  "buildRankings [sealedEntry, openEntry] [subjectMember, otherMember]
     = [sealedRow\<lparr>ranking := 0\<rparr>, openRow]"
  by (simp add: buildRankings_def memberRows_def memberKpirefs_def subjectMember_def
        otherMember_def makeRow_def sealedEntry_def openEntry_def entryOf_def sealedRow_def
        openRow_def)


lemma rank_ranked: "rankCurrent [sealedRow\<lparr>ranking := 0\<rparr>, openRow] = [sealedRow, openRow]"
  by (simp add: rankCurrent_def jsSort_def compareRows_def sealedRow_def openRow_def)


lemma stats_ranked: "computeStatistics [sealedRow, openRow] = statistics currentStats"
  by (simp add: computeStatistics_def meanScore_def jsRound_def sealedRow_def openRow_def
        currentStats_def)


lemma current_statistics_sample:
  "getKpiEntriesStatisticsByDepartmentAndRoleWithMonthAndYear rankedStore nov2026 None None None None None = Inr currentStats"
proof -
  have e: "periodEntries rankedStore None 11 2026 = [sealedEntry, openEntry]"
    by (simp add: periodEntries_def rankedStore_def sealedEntry_def openEntry_def entryOf_def
          truthy_def)
  have c: "int (d_month nov2026) = 11" "d_year nov2026 = 2026" by (simp_all add: nov2026_def)
  show ?thesis
    unfolding getKpiEntriesStatisticsByDepartmentAndRoleWithMonthAndYear_def resolve_current Let_def prod.case members_ranked e c
      rows_ranked
    by (simp add: rank_ranked stats_ranked currentStats_def)
qed









text \<open>
  C9: the code departs from the claim. \<open>highestScore\<close> is the score of the first row and
  \<open>lowestScore\<close> the score of the last row that has an entry. In the current month the rows
  are sorted by status before score: with a generated row of score 5 and an initiated row of
  score 9 the summary reports 5 as the highest score and 9 as the lowest.
\<close>

theorem summary_extremes_by_position:
  "getKpiEntriesStatisticsByDepartmentAndRoleWithMonthAndYear rankedStore nov2026 None None None None None = Inr currentStats \<and>
   map row_totalScore (filter hasEntry (rankings currentStats)) = [5, 9] \<and>
   highestScore (statistics currentStats) = 5 \<and>
   lowestScore (statistics currentStats) = 9"
  using current_statistics_sample
  by (simp add: currentStats_def sealedRow_def openRow_def)

theorem summary_extremes_by_position_witness:
  "highestScore (statistics currentStats)
     < Max (set (map row_totalScore (filter hasEntry (rankings currentStats)))) \<and>
   Min (set (map row_totalScore (filter hasEntry (rankings currentStats))))
     < lowestScore (statistics currentStats)"
  using summary_extremes_by_position
  by simp

end
